theory Spec2Isabelle
  imports Complex_Main
begin

section \<open>Thread names of the ICS2000 light platform\<close>

text \<open>
  The platform file \<^verbatim>\<open>custom_components/ics2000/light.py\<close> starts one Python thread per hub
  command and recognises a busy device by the names of the live threads. A thread is named
  \<^verbatim>\<open>f'kaku{action.value}{device_id}'\<close>. The device id is the hub's integer entity id, so
  the f-string renders it as Python's \<^verbatim>\<open>str\<close> does for an \<^verbatim>\<open>int\<close>: decimal digits
  without leading zeros, with a leading minus sign for a negative number.
\<close>

datatype KlikAanKlikUitAction = TURN_ON | TURN_OFF | DIM | CHANGE_TEMEPRATURE

fun action_value :: "KlikAanKlikUitAction \<Rightarrow> string" where
  "action_value TURN_ON = ''on''"
| "action_value TURN_OFF = ''off''"
| "action_value DIM = ''dim''"
| "action_value CHANGE_TEMEPRATURE = ''change_temperature''"

definition digit_char :: "nat \<Rightarrow> char" where
  "digit_char d = ''0123456789'' ! d"

fun str_nat :: "nat \<Rightarrow> string" where
  "str_nat n = (if n < 10 then [digit_char n] else str_nat (n div 10) @ [digit_char (n mod 10)])"

definition str_int :: "int \<Rightarrow> string" where
  "str_int i = (if i < 0 then CHR ''-'' # str_nat (nat (- i)) else str_nat (nat i))"

text \<open>\<^verbatim>\<open>KlikAanKlikUitThread.__init__\<close>: the name given to the thread.\<close>

definition thread_name :: "KlikAanKlikUitAction \<Rightarrow> int \<Rightarrow> string" where
  "thread_name action device_id = ''kaku'' @ action_value action @ str_int device_id"

text \<open>
  \<^verbatim>\<open>KlikAanKlikUitThread.has_running_threads\<close>. Its first argument stands for the names
  of the threads that \<^verbatim>\<open>threading.enumerate()\<close> returns at the moment of the call.
\<close>

definition has_running_threads :: "string list \<Rightarrow> int \<Rightarrow> bool" where
  "has_running_threads live_names device_id =
     (let running_threads = filter (\<lambda>name. name \<in> set [
            thread_name TURN_ON device_id,
            thread_name DIM device_id,
            thread_name TURN_OFF device_id]) live_names
      in if running_threads \<noteq> [] then True else False)"

section \<open>The retry loop\<close>

text \<open>
  \<^verbatim>\<open>repeat(tries, sleep, callable_function, **kwargs)\<close> first reads
  \<^verbatim>\<open>getattr(callable_function, '__qualname__')\<close>, which raises \<^verbatim>\<open>AttributeError\<close> for a
  callable without that attribute (a \<^verbatim>\<open>functools.partial\<close>, an instance with
  \<^verbatim>\<open>__call__\<close>); functions and bound methods have it. It then calls the function once per
  index of \<^verbatim>\<open>range(0, tries)\<close>, each call followed by \<^verbatim>\<open>time.sleep\<close>: of \<^verbatim>\<open>sleep\<close> seconds
  after every attempt but the last, of \<^verbatim>\<open>0\<close> seconds after the last one.

  The called function belongs to the hub client, outside this file: it is a parameter
  here, with its \<^verbatim>\<open>__qualname__\<close> if it has one, and its behaviour as a function of its
  keyword arguments and of the state of the world that returns the new state and the
  exception it raised, if any. The model returns the trace of the calls made, the
  exception that ended \<^verbatim>\<open>repeat\<close> early, if any, and the state of the world. The two
  logging calls are left out.
\<close>

datatype 'e error = AttributeError | ValueError | OverflowError | Raised 'e

datatype 'k event = Invoke 'k | Sleep int

record ('k, 'w, 'e) callable =
  c_qualname :: "string option"
  c_call :: "'k \<Rightarrow> 'w \<Rightarrow> 'e option \<times> 'w"

text \<open>
  \<^verbatim>\<open>time.sleep(secs)\<close> for an integer: CPython converts the seconds to a signed 64-bit
  count of nanoseconds and raises \<^verbatim>\<open>OverflowError\<close> when they do not fit, that is outside
  \<open>-9223372036 .. 9223372036\<close>; a negative length that fits raises \<^verbatim>\<open>ValueError\<close>.
\<close>

definition time_sleep :: "int \<Rightarrow> 'e error option" where
  "time_sleep secs =
     (if secs < - 9223372036 \<or> 9223372036 < secs then Some OverflowError
      else if secs < 0 then Some ValueError
      else None)"

fun range0 :: "int \<Rightarrow> int list" where
  "range0 n = map int [0..<nat n]"

fun repeat_loop ::
  "int \<Rightarrow> int \<Rightarrow> ('k, 'w, 'e) callable \<Rightarrow> 'k \<Rightarrow> int list \<Rightarrow> 'w
    \<Rightarrow> 'k event list \<times> 'e error option \<times> 'w" where
  "repeat_loop tries sleep callable_function kwargs [] w = ([], None, w)"
| "repeat_loop tries sleep callable_function kwargs (i # rest) w =
     (case c_call callable_function kwargs w of
        (Some e, w') \<Rightarrow> ([Invoke kwargs], Some (Raised e), w')
      | (None, w') \<Rightarrow>
          (let seconds = (if i \<noteq> tries - 1 then sleep else 0) in
           case time_sleep seconds of
             Some e \<Rightarrow> ([Invoke kwargs], Some e, w')
           | None \<Rightarrow>
               (case repeat_loop tries sleep callable_function kwargs rest w' of
                  (trace, r) \<Rightarrow> (Invoke kwargs # Sleep seconds # trace, r))))"

definition repeat ::
  "int \<Rightarrow> int \<Rightarrow> ('k, 'w, 'e) callable \<Rightarrow> 'k \<Rightarrow> 'w
    \<Rightarrow> 'k event list \<times> 'e error option \<times> 'w" where
  "repeat tries sleep callable_function kwargs w =
     (case c_qualname callable_function of
        None \<Rightarrow> ([], Some AttributeError, w)
      | Some qualname \<Rightarrow>
          repeat_loop tries sleep callable_function kwargs (range0 tries) w)"

text \<open>What a trace shows: the number of calls of the function and the seconds slept.\<close>

fun invocations :: "'k event list \<Rightarrow> nat" where
  "invocations [] = 0"
| "invocations (Invoke k # es) = Suc (invocations es)"
| "invocations (Sleep s # es) = invocations es"


section \<open>Threads and entities\<close>

text \<open>
  The hub's methods that the entities hand to \<^verbatim>\<open>repeat\<close>, each with the keyword arguments
  it is called with: \<^verbatim>\<open>entity\<close> first, then \<^verbatim>\<open>level\<close> or \<^verbatim>\<open>color_temp\<close>.
\<close>

datatype hub_call =
    Hub_turn_on int
  | Hub_turn_off int
  | Hub_dim int int
  | Hub_zigbee_on int
  | Hub_zigbee_off int
  | Hub_zigbee_dim int int
  | Hub_zigbee_color_temp int int

text \<open>
  A started \<^verbatim>\<open>KlikAanKlikUitThread\<close>: its name, and the \<^verbatim>\<open>tries\<close>, \<^verbatim>\<open>sleep\<close> and call
  of the \<^verbatim>\<open>kwargs\<close> its target \<^verbatim>\<open>repeat\<close> receives.
\<close>

record thread =
  t_name :: string
  t_tries :: int
  t_sleep :: int
  t_call :: hub_call

definition KlikAanKlikUitThread ::
  "KlikAanKlikUitAction \<Rightarrow> int \<Rightarrow> int \<Rightarrow> int \<Rightarrow> hub_call \<Rightarrow> thread" where
  "KlikAanKlikUitThread action device_id tries sleep call =
     \<lparr>t_name = thread_name action device_id, t_tries = tries, t_sleep = sleep, t_call = call\<rparr>"

text \<open>
  What the thread does when it runs: \<^verbatim>\<open>repeat(**kwargs)\<close> against the hub. The callable
  in the \<^verbatim>\<open>kwargs\<close> is a bound method of the hub object, which has its
  \<^verbatim>\<open>__qualname__\<close>; \<open>hub\<close> is what the hub's methods do.
\<close>

fun hub_qualname :: "hub_call \<Rightarrow> string" where
  "hub_qualname (Hub_turn_on entity) = ''Hub.turn_on''"
| "hub_qualname (Hub_turn_off entity) = ''Hub.turn_off''"
| "hub_qualname (Hub_dim entity level) = ''Hub.dim''"
| "hub_qualname (Hub_zigbee_on entity) = ''Hub.zigbee_on''"
| "hub_qualname (Hub_zigbee_off entity) = ''Hub.zigbee_off''"
| "hub_qualname (Hub_zigbee_dim entity level) = ''Hub.zigbee_dim''"
| "hub_qualname (Hub_zigbee_color_temp entity color_temp) = ''Hub.zigbee_color_temp''"

definition run_thread ::
  "(hub_call \<Rightarrow> 'w \<Rightarrow> 'e option \<times> 'w) \<Rightarrow> thread \<Rightarrow> 'w
    \<Rightarrow> hub_call event list \<times> 'e error option \<times> 'w" where
  "run_thread hub t w =
     repeat (t_tries t) (t_sleep t)
       \<lparr>c_qualname = Some (hub_qualname (t_call t)), c_call = hub\<rparr> (t_call t) w"


text \<open>
  The keyword arguments of \<^verbatim>\<open>turn_on\<close> that the entities read: \<^verbatim>\<open>ATTR_BRIGHTNESS\<close> and
  \<^verbatim>\<open>ATTR_COLOR_TEMP\<close>, each absent (\<open>None\<close>) or an integer.
\<close>

record turn_on_kwargs =
  ATTR_BRIGHTNESS :: "int option"
  ATTR_COLOR_TEMP :: "int option"

text \<open>
  \<^verbatim>\<open>math.ceil(self.brightness / 17)\<close>, for the brightness of the host, which is an
  integer from 0 to 255 (Home Assistant clamps the brightness of a \<^verbatim>\<open>turn_on\<close> call to
  that range before it reaches the entity). Python divides in double precision; on this
  range, and up to \<open>2 ^ 40\<close> in absolute value, the rounded quotient has the ceiling of
  the exact one, which is what is written here. Far beyond it the double quotient rounds
  to another integer, or the division raises \<^verbatim>\<open>OverflowError\<close>: the definition does not
  describe the code there, and every statement below that depends on the level is about
  a brightness from 0 to 255.
\<close>

definition dim_level :: "int \<Rightarrow> int" where
  "dim_level brightness = \<lceil>real_of_int brightness / 17\<rceil>"

subsection \<open>\<^verbatim>\<open>KlikAanKlikUitDevice\<close>\<close>

record KlikAanKlikUitDevice =
  dev_tries :: int
  dev_sleep :: int
  dev_name :: string
  dev_id :: int
  dev_state :: "bool option"
  dev_brightness :: "int option"

text \<open>
  The methods take the names of the live threads and the entity, and return the threads
  they started, in the order of the \<^verbatim>\<open>start()\<close> calls, and the entity as they leave it.
  \<^verbatim>\<open>self.is_on is None or not self.is_on\<close> reads \<^verbatim>\<open>_state\<close>.
\<close>

definition KlikAanKlikUitDevice_turn_on ::
  "string list \<Rightarrow> KlikAanKlikUitDevice \<Rightarrow> turn_on_kwargs
    \<Rightarrow> thread list \<times> KlikAanKlikUitDevice" where
  "KlikAanKlikUitDevice_turn_on live_names self kwargs =
     (if has_running_threads live_names (dev_id self) then ([], self)
      else
        (let brightness = (case ATTR_BRIGHTNESS kwargs of Some b \<Rightarrow> b | None \<Rightarrow> 255);
             self1 = self\<lparr>dev_brightness := Some brightness\<rparr>;
             started =
               (if dev_state self1 = None \<or> dev_state self1 = Some False then
                  [KlikAanKlikUitThread TURN_ON (dev_id self1) (dev_tries self1) (dev_sleep self1)
                     (Hub_turn_on (dev_id self1))]
                else
                  [KlikAanKlikUitThread DIM (dev_id self1) (dev_tries self1) (dev_sleep self1)
                     (Hub_dim (dev_id self1) (dim_level brightness))])
         in (started, self1\<lparr>dev_state := Some True\<rparr>)))"

definition KlikAanKlikUitDevice_turn_off ::
  "string list \<Rightarrow> KlikAanKlikUitDevice \<Rightarrow> thread list \<times> KlikAanKlikUitDevice" where
  "KlikAanKlikUitDevice_turn_off live_names self =
     (if has_running_threads live_names (dev_id self) then ([], self)
      else
        ([KlikAanKlikUitThread TURN_OFF (dev_id self) (dev_tries self) (dev_sleep self)
            (Hub_turn_off (dev_id self))],
         self\<lparr>dev_state := Some False\<rparr>))"

subsection \<open>\<^verbatim>\<open>KlikAanKlikUitZigbeeDevice\<close>\<close>

record KlikAanKlikUitZigbeeDevice =
  zb_name :: string
  zb_id :: int
  zb_state :: "bool option"
  zb_brightness :: "int option"
  zb_color_temp :: "int option"

definition KlikAanKlikUitZigbeeDevice_turn_on ::
  "string list \<Rightarrow> KlikAanKlikUitZigbeeDevice \<Rightarrow> turn_on_kwargs
    \<Rightarrow> thread list \<times> KlikAanKlikUitZigbeeDevice" where
  "KlikAanKlikUitZigbeeDevice_turn_on live_names self kwargs =
     (if has_running_threads live_names (zb_id self) then ([], self)
      else
        (let self1 = self\<lparr>zb_brightness := ATTR_BRIGHTNESS kwargs\<rparr>;
             self2 = self1\<lparr>zb_color_temp := ATTR_COLOR_TEMP kwargs\<rparr>;
             started =
               (if zb_state self2 = None \<or> zb_state self2 = Some False then
                  [KlikAanKlikUitThread TURN_ON (zb_id self2) 1 1 (Hub_zigbee_on (zb_id self2))]
                  @ (case zb_brightness self2 of
                       Some level \<Rightarrow>
                         [KlikAanKlikUitThread DIM (zb_id self2) 1 1
                            (Hub_zigbee_dim (zb_id self2) level)]
                     | None \<Rightarrow> [])
                  @ (case zb_color_temp self2 of
                       Some color_temp \<Rightarrow>
                         [KlikAanKlikUitThread CHANGE_TEMEPRATURE (zb_id self2) 1 1
                            (Hub_zigbee_color_temp (zb_id self2) color_temp)]
                     | None \<Rightarrow> [])
                else
                  (case zb_brightness self2 of
                     Some level \<Rightarrow>
                       [KlikAanKlikUitThread DIM (zb_id self2) 1 1
                          (Hub_zigbee_dim (zb_id self2) level)]
                   | None \<Rightarrow> [])
                  @ (case zb_color_temp self2 of
                       Some color_temp \<Rightarrow>
                         [KlikAanKlikUitThread CHANGE_TEMEPRATURE (zb_id self2) 1 1
                            (Hub_zigbee_color_temp (zb_id self2) color_temp)]
                     | None \<Rightarrow> []))
         in (started, self2\<lparr>zb_state := Some True\<rparr>)))"

definition KlikAanKlikUitZigbeeDevice_turn_off ::
  "string list \<Rightarrow> KlikAanKlikUitZigbeeDevice \<Rightarrow> thread list \<times> KlikAanKlikUitZigbeeDevice" where
  "KlikAanKlikUitZigbeeDevice_turn_off live_names self =
     (if has_running_threads live_names (zb_id self) then ([], self)
      else
        ([KlikAanKlikUitThread TURN_OFF (zb_id self) 1 1 (Hub_zigbee_off (zb_id self))],
         self\<lparr>zb_state := Some False\<rparr>))"

subsection \<open>Threads running beside an entity\<close>

text \<open>
  A thread holds the hub's bound method and the device id, and no reference to the entity
  that started it: when it runs, whatever the hub does and whether or not it raises, the
  state of the world changes and the entity stays as it is. A process is the entity
  together with the state of the world; \<open>threads_run\<close> lets a list of threads run.
\<close>

record ('d, 'w) process =
  light :: 'd
  world :: 'w

definition thread_runs ::
  "(hub_call \<Rightarrow> 'w \<Rightarrow> 'e option \<times> 'w) \<Rightarrow> ('d, 'w) process \<Rightarrow> thread \<Rightarrow> ('d, 'w) process" where
  "thread_runs hub p t = p\<lparr>world := snd (snd (run_thread hub t (world p)))\<rparr>"

definition threads_run ::
  "(hub_call \<Rightarrow> 'w \<Rightarrow> 'e option \<times> 'w) \<Rightarrow> ('d, 'w) process \<Rightarrow> thread list \<Rightarrow> ('d, 'w) process" where
  "threads_run hub p ts = foldl (thread_runs hub) p ts"

section \<open>Decimal rendering is injective\<close>

declare str_nat.simps [simp del]

lemma digit_char_inj: "a < 10 \<Longrightarrow> b < 10 \<Longrightarrow> digit_char a = digit_char b \<Longrightarrow> a = b"
proof -
  assume a: "a < 10" and b: "b < 10" and e: "digit_char a = digit_char b"
  have d: "distinct ''0123456789''" by simp
  have l: "length ''0123456789'' = 10" by simp
  from e have "''0123456789'' ! a = ''0123456789'' ! b" by (simp only: digit_char_def)
  with d a b l show "a = b" by (simp only: nth_eq_iff_index_eq)
qed

lemma digit_char_not_minus: "d < 10 \<Longrightarrow> digit_char d \<noteq> CHR ''-''"
proof -
  assume "d < 10"
  then have "d \<in> {0, 1, 2, 3, 4, 5, 6, 7, 8, 9}" by auto
  then show ?thesis by (auto simp: digit_char_def)
qed

lemma str_nat_not_Nil: "str_nat n \<noteq> []"
  by (subst str_nat.simps) simp

lemma str_nat_inj: "str_nat m = str_nat n \<Longrightarrow> m = n"
proof (induction m arbitrary: n rule: str_nat.induct)
  case (1 m)
  show ?case
  proof (cases "m < 10")
    case True
    show ?thesis
    proof (cases "n < 10")
      case n: True
      from "1.prems" True n have "digit_char m = digit_char n"
        by (simp add: str_nat.simps [of m] str_nat.simps [of n])
      with True n show ?thesis by (rule digit_char_inj)
    next
      case n: False
      from "1.prems" True n show ?thesis
        by (simp add: str_nat.simps [of m] str_nat.simps [of n] str_nat_not_Nil str_nat_not_Nil [symmetric])
    qed
  next
    case False
    show ?thesis
    proof (cases "n < 10")
      case n: True
      from "1.prems" False n show ?thesis
        by (simp add: str_nat.simps [of m] str_nat.simps [of n] str_nat_not_Nil str_nat_not_Nil [symmetric])
    next
      case n: False
      from "1.prems" False n
      have q: "str_nat (m div 10) = str_nat (n div 10)"
        and r: "digit_char (m mod 10) = digit_char (n mod 10)"
        by (simp_all add: str_nat.simps [of m] str_nat.simps [of n])
      from "1.IH" [OF False q] have "m div 10 = n div 10" .
      moreover from r have "m mod 10 = n mod 10" by (intro digit_char_inj) simp_all
      ultimately show ?thesis by (metis div_mult_mod_eq)
    qed
  qed
qed

lemma str_nat_hd_not_minus: "hd (str_nat n) \<noteq> CHR ''-''"
proof (induction n rule: str_nat.induct)
  case (1 n)
  show ?case
  proof (cases "n < 10")
    case True
    then show ?thesis by (simp add: str_nat.simps [of n] digit_char_not_minus)
  next
    case False
    with "1.IH" show ?thesis by (simp add: str_nat.simps [of n] str_nat_not_Nil)
  qed
qed

lemma str_int_inj: "str_int i = str_int j \<Longrightarrow> i = j"
proof -
  assume e: "str_int i = str_int j"
  have neg_pos: "CHR ''-'' # str_nat a \<noteq> str_nat b" for a b
    using str_nat_hd_not_minus [of b] by (metis list.sel(1))
  show "i = j"
  proof (cases "i < 0")
    case True
    show ?thesis
    proof (cases "j < 0")
      case j: True
      from e True j have "nat (- i) = nat (- j)" by (simp add: str_int_def str_nat_inj)
      with True j show ?thesis by simp
    next
      case j: False
      from e True j neg_pos show ?thesis by (simp add: str_int_def)
    qed
  next
    case False
    show ?thesis
    proof (cases "j < 0")
      case j: True
      from e False j neg_pos [of "nat (- j)" "nat i"] show ?thesis by (simp add: str_int_def)
    next
      case j: False
      from e False j have "nat i = nat j" by (simp add: str_int_def str_nat_inj)
      with False j show ?thesis by simp
    qed
  qed
qed

lemma thread_name_inj:
  "thread_name a i = thread_name b j \<longleftrightarrow> a = b \<and> i = j"
  by (cases a; cases b) (auto simp: thread_name_def dest: str_int_inj)

lemma thread_name_kaku: "take 4 (thread_name a i) = ''kaku''"
  by (simp add: thread_name_def)

section \<open>The guard\<close>

lemma has_running_threads_iff_name:
  "has_running_threads live_names device_id \<longleftrightarrow>
     thread_name TURN_ON device_id \<in> set live_names \<or>
     thread_name DIM device_id \<in> set live_names \<or>
     thread_name TURN_OFF device_id \<in> set live_names"
  by (auto simp: has_running_threads_def filter_empty_conv)

lemma thread_name_in_keys:
  "thread_name a i \<in> (\<lambda>(b, j). thread_name b j) ` K \<longleftrightarrow> (a, i) \<in> K"
  by (force simp: thread_name_inj image_iff)

lemma thread_name_not_other:
  "\<forall>n\<in>set others. take 4 n \<noteq> ''kaku'' \<Longrightarrow> thread_name a i \<notin> set others"
  using thread_name_kaku by blast

lemmas name_eval = thread_name_def str_int_def str_nat.simps digit_char_def

text \<open>
  Claim C8. A live worker started for the key \<open>(a, d)\<close> carries the name
  \<open>thread_name a d\<close>; beside the workers, \<^verbatim>\<open>threading.enumerate()\<close> returns threads of
  the host (the main thread, its executor), whose names do not start with \<^verbatim>\<open>kaku\<close>.
  \<open>has_running_threads\<close> answers true for a device exactly when a live worker has the
  key of that device with \<open>TURN_ON\<close>, \<open>DIM\<close> or \<open>TURN_OFF\<close>. A live worker with the
  key \<open>(CHANGE_TEMEPRATURE, device)\<close> never changes the answer, and alone it leaves the
  device free for the next request.
\<close>

theorem has_running_threads_iff_key:
  assumes "\<forall>n\<in>set others. take 4 n \<noteq> ''kaku''"
  shows "(has_running_threads (others @ map (\<lambda>(a, d). thread_name a d) keys) device_id \<longleftrightarrow>
            (TURN_ON, device_id) \<in> set keys \<or> (DIM, device_id) \<in> set keys \<or>
            (TURN_OFF, device_id) \<in> set keys)
         \<and> (has_running_threads
              (others @ map (\<lambda>(a, d). thread_name a d) ((CHANGE_TEMEPRATURE, device_id) # keys))
              device_id \<longleftrightarrow>
            has_running_threads (others @ map (\<lambda>(a, d). thread_name a d) keys) device_id)
         \<and> \<not> has_running_threads (others @ [thread_name CHANGE_TEMEPRATURE device_id]) device_id"
  using assms
  by (simp add: has_running_threads_iff_name thread_name_in_keys thread_name_not_other
      thread_name_inj)

theorem has_running_threads_iff_key_witness:
  "has_running_threads
     ([''MainThread''] @ map (\<lambda>(a, d). thread_name a d) [(DIM, 5), (CHANGE_TEMEPRATURE, 7)]) 5
   \<and> \<not> has_running_threads
     ([''MainThread''] @ map (\<lambda>(a, d). thread_name a d) [(DIM, 5), (CHANGE_TEMEPRATURE, 7)]) 7
   \<and> \<not> has_running_threads [''MainThread'', ''kakuchange_temperature7''] 7"
proof -
  have o: "\<forall>n\<in>set [''MainThread'']. take 4 n \<noteq> ''kaku''" by simp
  have n: "thread_name CHANGE_TEMEPRATURE 7 = ''kakuchange_temperature7''"
    by (simp add: name_eval)
  show ?thesis
    using has_running_threads_iff_key [OF o, of "[(DIM, 5), (CHANGE_TEMEPRATURE, 7)]" 5]
      has_running_threads_iff_key [OF o, of "[(DIM, 5), (CHANGE_TEMEPRATURE, 7)]" 7]
    by (simp add: n)
qed

section \<open>The retry loop runs every attempt\<close>










section \<open>A busy device drops the request\<close>

lemmas dispatch_defs = KlikAanKlikUitDevice_turn_on_def KlikAanKlikUitDevice_turn_off_def
  KlikAanKlikUitZigbeeDevice_turn_on_def KlikAanKlikUitZigbeeDevice_turn_off_def

lemma guarded_name_busy:
  "action \<in> {TURN_ON, DIM, TURN_OFF} \<Longrightarrow> thread_name action device_id \<in> set live_names
    \<Longrightarrow> has_running_threads live_names device_id"
  by (auto simp: has_running_threads_iff_name)

text \<open>
  Claim C1. When a live thread carries the name of the device with \<open>TURN_ON\<close>, \<open>DIM\<close> or
  \<open>TURN_OFF\<close> at the moment of the call, \<open>turn_on\<close> and \<open>turn_off\<close> of the standard entity
  and of the Zigbee entity start no thread and return the entity as it was: \<open>_state\<close>,
  \<open>_brightness\<close> and \<open>_color_temp\<close> keep their values.
\<close>

theorem busy_request_dropped:
  assumes "action \<in> {TURN_ON, DIM, TURN_OFF}"
  shows "(thread_name action (dev_id d) \<in> set live_names \<longrightarrow>
            KlikAanKlikUitDevice_turn_on live_names d kwargs = ([], d) \<and>
            KlikAanKlikUitDevice_turn_off live_names d = ([], d))
         \<and> (thread_name action (zb_id z) \<in> set live_names \<longrightarrow>
            KlikAanKlikUitZigbeeDevice_turn_on live_names z kwargs = ([], z) \<and>
            KlikAanKlikUitZigbeeDevice_turn_off live_names z = ([], z))"
  using guarded_name_busy [OF assms] by (simp add: dispatch_defs)

theorem busy_request_dropped_witness:
  "KlikAanKlikUitDevice_turn_off [''MainThread'', ''kakuon12'']
     \<lparr>dev_tries = 3, dev_sleep = 3, dev_name = ''D1'', dev_id = 12, dev_state = Some True,
      dev_brightness = Some 85\<rparr>
   = ([], \<lparr>dev_tries = 3, dev_sleep = 3, dev_name = ''D1'', dev_id = 12, dev_state = Some True,
      dev_brightness = Some 85\<rparr>)
   \<and> KlikAanKlikUitZigbeeDevice_turn_on [''MainThread'', ''kakuon12'']
     \<lparr>zb_name = ''Z1'', zb_id = 12, zb_state = Some False, zb_brightness = Some 100,
      zb_color_temp = None\<rparr> \<lparr>ATTR_BRIGHTNESS = Some 40, ATTR_COLOR_TEMP = Some 300\<rparr>
   = ([], \<lparr>zb_name = ''Z1'', zb_id = 12, zb_state = Some False, zb_brightness = Some 100,
      zb_color_temp = None\<rparr>)"
proof -
  have a: "TURN_ON \<in> {TURN_ON, DIM, TURN_OFF}" by simp
  have n: "thread_name TURN_ON 12 = ''kakuon12''" by (simp add: name_eval)
  show ?thesis
    using busy_request_dropped [OF a, of
        "\<lparr>dev_tries = 3, dev_sleep = 3, dev_name = ''D1'', dev_id = 12, dev_state = Some True,
          dev_brightness = Some 85\<rparr>"
        "[''MainThread'', ''kakuon12'']"
        "\<lparr>ATTR_BRIGHTNESS = Some 40, ATTR_COLOR_TEMP = Some 300\<rparr>"
        "\<lparr>zb_name = ''Z1'', zb_id = 12, zb_state = Some False, zb_brightness = Some 100,
          zb_color_temp = None\<rparr>"]
    by (simp add: n)
qed

section \<open>The standard entity\<close>

lemma dim_level_div: "dim_level b = - (- b div 17)"
  unfolding dim_level_def using ceiling_divide_eq_div [of b 17] by simp

lemma main_thread_only: "\<not> has_running_threads [''MainThread''] i"
  by (simp add: has_running_threads_iff_name thread_name_def)

text \<open>
  Claim C3. A standard entity whose device is not busy starts exactly one thread in
  \<open>turn_on\<close>: the \<open>TURN_ON\<close> thread calling the hub's \<open>turn_on\<close> when \<open>_state\<close> is
  \<open>None\<close> or false, whether or not a brightness was supplied, and the \<open>DIM\<close> thread
  calling the hub's \<open>dim\<close> with level \<open>ceil(brightness / 17)\<close> when \<open>_state\<close> is true,
  the brightness being the supplied one, on the host's scale from 0 to 255, or 255 when
  none is supplied.
\<close>

theorem standard_turn_on_one_thread:
  assumes "\<not> has_running_threads live_names (dev_id d)"
    and "dev_state d = Some True \<longrightarrow>
           (case ATTR_BRIGHTNESS kwargs of Some b \<Rightarrow> 0 \<le> b \<and> b \<le> 255 | None \<Rightarrow> True)"
  shows "fst (KlikAanKlikUitDevice_turn_on live_names d kwargs) =
           (if dev_state d = Some True then
              [KlikAanKlikUitThread DIM (dev_id d) (dev_tries d) (dev_sleep d)
                 (Hub_dim (dev_id d)
                    (dim_level (case ATTR_BRIGHTNESS kwargs of Some b \<Rightarrow> b | None \<Rightarrow> 255)))]
            else
              [KlikAanKlikUitThread TURN_ON (dev_id d) (dev_tries d) (dev_sleep d)
                 (Hub_turn_on (dev_id d))])
         \<and> length (fst (KlikAanKlikUitDevice_turn_on live_names d kwargs)) = 1
         \<and> (dev_state d = Some True \<longrightarrow>
              0 \<le> dim_level (case ATTR_BRIGHTNESS kwargs of Some b \<Rightarrow> b | None \<Rightarrow> 255)
              \<and> dim_level (case ATTR_BRIGHTNESS kwargs of Some b \<Rightarrow> b | None \<Rightarrow> 255) \<le> 15)"
proof -
  have l: "0 \<le> dim_level (case ATTR_BRIGHTNESS kwargs of Some b \<Rightarrow> b | None \<Rightarrow> 255)
      \<and> dim_level (case ATTR_BRIGHTNESS kwargs of Some b \<Rightarrow> b | None \<Rightarrow> 255) \<le> 15"
    if "dev_state d = Some True"
  proof (cases "ATTR_BRIGHTNESS kwargs")
    case None
    then show ?thesis by (simp add: dim_level_div)
  next
    case (Some b)
    with assms(2) that have "0 \<le> b \<and> b \<le> 255" by simp
    with Some show ?thesis unfolding dim_level_div by simp presburger
  qed
  have t: "fst (KlikAanKlikUitDevice_turn_on live_names d kwargs) =
           (if dev_state d = Some True then
              [KlikAanKlikUitThread DIM (dev_id d) (dev_tries d) (dev_sleep d)
                 (Hub_dim (dev_id d)
                    (dim_level (case ATTR_BRIGHTNESS kwargs of Some b \<Rightarrow> b | None \<Rightarrow> 255)))]
            else
              [KlikAanKlikUitThread TURN_ON (dev_id d) (dev_tries d) (dev_sleep d)
                 (Hub_turn_on (dev_id d))])"
    using assms(1)
    by (cases "dev_state d") (auto simp: KlikAanKlikUitDevice_turn_on_def Let_def)
  from t l show ?thesis by simp
qed

theorem standard_turn_on_one_thread_witness:
  "fst (KlikAanKlikUitDevice_turn_on [''MainThread'']
          \<lparr>dev_tries = 3, dev_sleep = 3, dev_name = ''D1'', dev_id = 12, dev_state = Some False,
           dev_brightness = None\<rparr>
          \<lparr>ATTR_BRIGHTNESS = Some 85, ATTR_COLOR_TEMP = None\<rparr>) =
     [\<lparr>t_name = ''kakuon12'', t_tries = 3, t_sleep = 3, t_call = Hub_turn_on 12\<rparr>]
   \<and> fst (KlikAanKlikUitDevice_turn_on [''MainThread'']
          \<lparr>dev_tries = 3, dev_sleep = 3, dev_name = ''D1'', dev_id = 12, dev_state = Some True,
           dev_brightness = Some 85\<rparr>
          \<lparr>ATTR_BRIGHTNESS = Some 51, ATTR_COLOR_TEMP = None\<rparr>) =
     [\<lparr>t_name = ''kakudim12'', t_tries = 3, t_sleep = 3, t_call = Hub_dim 12 3\<rparr>]"
proof -
  have off: "dev_state \<lparr>dev_tries = 3, dev_sleep = 3, dev_name = ''D1'', dev_id = 12,
        dev_state = Some False, dev_brightness = None\<rparr> = Some True \<longrightarrow>
      (case ATTR_BRIGHTNESS \<lparr>ATTR_BRIGHTNESS = Some 85, ATTR_COLOR_TEMP = None\<rparr> of
         Some b \<Rightarrow> 0 \<le> b \<and> b \<le> 255 | None \<Rightarrow> True)"
    by simp
  have on: "dev_state \<lparr>dev_tries = 3, dev_sleep = 3, dev_name = ''D1'', dev_id = 12,
        dev_state = Some True, dev_brightness = Some 85\<rparr> = Some True \<longrightarrow>
      (case ATTR_BRIGHTNESS \<lparr>ATTR_BRIGHTNESS = Some 51, ATTR_COLOR_TEMP = None\<rparr> of
         Some b \<Rightarrow> 0 \<le> b \<and> b \<le> 255 | None \<Rightarrow> True)"
    by simp
  show ?thesis
    using standard_turn_on_one_thread [OF main_thread_only off]
      standard_turn_on_one_thread [OF main_thread_only on]
    by (simp add: KlikAanKlikUitThread_def name_eval dim_level_div)
qed

text \<open>
  Claim C6. For every host brightness from 1 to 255 the level \<open>ceil(brightness / 17)\<close>
  lies between 1 and 15. At brightness 0 the level is 0, and an entity that is on hands
  this level to the hub's \<open>dim\<close>.
\<close>

theorem dim_level_range:
  "(\<forall>b. 1 \<le> b \<and> b \<le> 255 \<longrightarrow> 1 \<le> dim_level b \<and> dim_level b \<le> 15)
   \<and> dim_level 0 = 0
   \<and> fst (KlikAanKlikUitDevice_turn_on [] (d\<lparr>dev_state := Some True\<rparr>)
            \<lparr>ATTR_BRIGHTNESS = Some 0, ATTR_COLOR_TEMP = None\<rparr>) =
       [KlikAanKlikUitThread DIM (dev_id d) (dev_tries d) (dev_sleep d) (Hub_dim (dev_id d) 0)]"
proof -
  have "1 \<le> dim_level b \<and> dim_level b \<le> 15" if "1 \<le> b" "b \<le> 255" for b
    using that unfolding dim_level_div by presburger
  moreover have "dim_level 0 = 0" by (simp add: dim_level_div)
  moreover have "\<not> has_running_threads [] (dev_id d)" by (simp add: has_running_threads_def)
  ultimately show ?thesis
    by (simp add: KlikAanKlikUitDevice_turn_on_def)
qed

theorem dim_level_range_witness:
  "dim_level 1 = 1 \<and> dim_level 17 = 1 \<and> dim_level 18 = 2 \<and> dim_level 255 = 15
   \<and> 1 \<le> dim_level 200 \<and> dim_level 200 \<le> 15"
proof -
  have "1 \<le> dim_level 200 \<and> dim_level 200 \<le> 15"
    using dim_level_range [THEN conjunct1, rule_format, of 200] by simp
  then show ?thesis by (simp add: dim_level_div)
qed

text \<open>
  Claim C9. A standard entity whose device is not busy stores brightness 255 when
  \<open>turn_on\<close> is called without a brightness; when \<open>_state\<close> was true, the \<open>DIM\<close> thread
  it starts uses level 15.
\<close>

theorem standard_default_brightness:
  assumes "\<not> has_running_threads live_names (dev_id d)" and "ATTR_BRIGHTNESS kwargs = None"
  shows "dev_brightness (snd (KlikAanKlikUitDevice_turn_on live_names d kwargs)) = Some 255
         \<and> (dev_state d = Some True \<longrightarrow>
              fst (KlikAanKlikUitDevice_turn_on live_names d kwargs) =
                [KlikAanKlikUitThread DIM (dev_id d) (dev_tries d) (dev_sleep d)
                   (Hub_dim (dev_id d) 15)])"
  using assms by (simp add: KlikAanKlikUitDevice_turn_on_def dim_level_div Let_def)

theorem standard_default_brightness_witness:
  "dev_brightness (snd (KlikAanKlikUitDevice_turn_on [''MainThread'']
          \<lparr>dev_tries = 3, dev_sleep = 3, dev_name = ''D1'', dev_id = 12, dev_state = Some True,
           dev_brightness = Some 85\<rparr>
          \<lparr>ATTR_BRIGHTNESS = None, ATTR_COLOR_TEMP = None\<rparr>)) = Some 255
   \<and> fst (KlikAanKlikUitDevice_turn_on [''MainThread'']
          \<lparr>dev_tries = 3, dev_sleep = 3, dev_name = ''D1'', dev_id = 12, dev_state = Some True,
           dev_brightness = Some 85\<rparr>
          \<lparr>ATTR_BRIGHTNESS = None, ATTR_COLOR_TEMP = None\<rparr>) =
     [\<lparr>t_name = ''kakudim12'', t_tries = 3, t_sleep = 3, t_call = Hub_dim 12 15\<rparr>]"
proof -
  have b: "ATTR_BRIGHTNESS \<lparr>ATTR_BRIGHTNESS = None, ATTR_COLOR_TEMP = None\<rparr> = None" by simp
  show ?thesis
    using standard_default_brightness [OF main_thread_only b, of
        "\<lparr>dev_tries = 3, dev_sleep = 3, dev_name = ''D1'', dev_id = 12, dev_state = Some True,
          dev_brightness = Some 85\<rparr>"]
    by (simp add: KlikAanKlikUitThread_def name_eval)
qed

section \<open>The Zigbee entity\<close>

lemma single_attempt:
  "c_qualname f \<noteq> None \<Longrightarrow> invocations (fst (repeat 1 s f k w)) = 1"
  by (cases "c_call f k w"; cases "fst (c_call f k w)")
    (auto simp: repeat_def time_sleep_def split: option.splits)

lemma run_thread_single:
  "invocations (fst (run_thread hub (KlikAanKlikUitThread a i 1 s c) w)) = 1"
  by (simp add: run_thread_def KlikAanKlikUitThread_def single_attempt)

text \<open>
  Claim C4. A Zigbee entity whose device is not busy and whose \<open>_state\<close> is \<open>None\<close> or
  false, called with a brightness and a colour temperature, starts exactly three threads,
  under three different names: the hub's \<open>zigbee_on\<close>, \<open>zigbee_dim\<close> with the supplied
  brightness unchanged as level, and \<open>zigbee_color_temp\<close> with the supplied value. Each
  has \<open>tries = 1\<close> and calls the hub exactly once, whatever the hub answers.
\<close>

theorem zigbee_turn_on_from_off:
  assumes "\<not> has_running_threads live_names (zb_id z)"
    and "zb_state z = None \<or> zb_state z = Some False"
    and "ATTR_BRIGHTNESS kwargs = Some b" and "ATTR_COLOR_TEMP kwargs = Some c"
  shows "fst (KlikAanKlikUitZigbeeDevice_turn_on live_names z kwargs) =
           [KlikAanKlikUitThread TURN_ON (zb_id z) 1 1 (Hub_zigbee_on (zb_id z)),
            KlikAanKlikUitThread DIM (zb_id z) 1 1 (Hub_zigbee_dim (zb_id z) b),
            KlikAanKlikUitThread CHANGE_TEMEPRATURE (zb_id z) 1 1
              (Hub_zigbee_color_temp (zb_id z) c)]
         \<and> distinct (map t_name (fst (KlikAanKlikUitZigbeeDevice_turn_on live_names z kwargs)))
         \<and> (\<forall>t\<in>set (fst (KlikAanKlikUitZigbeeDevice_turn_on live_names z kwargs)).
               t_tries t = 1 \<and> invocations (fst (run_thread hub t w)) = 1)"
proof -
  have e: "fst (KlikAanKlikUitZigbeeDevice_turn_on live_names z kwargs) =
           [KlikAanKlikUitThread TURN_ON (zb_id z) 1 1 (Hub_zigbee_on (zb_id z)),
            KlikAanKlikUitThread DIM (zb_id z) 1 1 (Hub_zigbee_dim (zb_id z) b),
            KlikAanKlikUitThread CHANGE_TEMEPRATURE (zb_id z) 1 1
              (Hub_zigbee_color_temp (zb_id z) c)]"
    using assms by (auto simp: KlikAanKlikUitZigbeeDevice_turn_on_def)
  have d: "distinct (map t_name (fst (KlikAanKlikUitZigbeeDevice_turn_on live_names z kwargs)))"
    unfolding e by (simp add: KlikAanKlikUitThread_def thread_name_inj)
  have t: "\<forall>t\<in>set (fst (KlikAanKlikUitZigbeeDevice_turn_on live_names z kwargs)).
               t_tries t = 1 \<and> invocations (fst (run_thread hub t w)) = 1"
    unfolding e by (simp add: run_thread_single) (simp add: KlikAanKlikUitThread_def)
  from e d t show ?thesis by blast
qed

theorem zigbee_turn_on_from_off_witness:
  "fst (KlikAanKlikUitZigbeeDevice_turn_on [''MainThread'']
          \<lparr>zb_name = ''Z1'', zb_id = 7, zb_state = Some False, zb_brightness = None,
           zb_color_temp = None\<rparr>
          \<lparr>ATTR_BRIGHTNESS = Some 100, ATTR_COLOR_TEMP = Some 300\<rparr>) =
     [\<lparr>t_name = ''kakuon7'', t_tries = 1, t_sleep = 1, t_call = Hub_zigbee_on 7\<rparr>,
      \<lparr>t_name = ''kakudim7'', t_tries = 1, t_sleep = 1, t_call = Hub_zigbee_dim 7 100\<rparr>,
      \<lparr>t_name = ''kakuchange_temperature7'', t_tries = 1, t_sleep = 1,
       t_call = Hub_zigbee_color_temp 7 300\<rparr>]"
proof -
  have s: "zb_state \<lparr>zb_name = ''Z1'', zb_id = 7, zb_state = Some False, zb_brightness = None,
      zb_color_temp = None\<rparr> = None \<or>
    zb_state \<lparr>zb_name = ''Z1'', zb_id = 7, zb_state = Some False, zb_brightness = None,
      zb_color_temp = None\<rparr> = Some False" by simp
  have b: "ATTR_BRIGHTNESS \<lparr>ATTR_BRIGHTNESS = Some 100, ATTR_COLOR_TEMP = Some 300\<rparr> = Some 100"
    and c: "ATTR_COLOR_TEMP \<lparr>ATTR_BRIGHTNESS = Some 100, ATTR_COLOR_TEMP = Some 300\<rparr> = Some 300"
    by simp_all
  show ?thesis
    using zigbee_turn_on_from_off [OF main_thread_only s b c,
        where hub = "\<lambda>c w. (None :: unit option, c # w)" and w = "[]"]
    by (simp add: KlikAanKlikUitThread_def name_eval)
qed

text \<open>
  Claim C7. A Zigbee entity whose device is not busy and whose \<open>_state\<close> is true starts
  no \<open>TURN_ON\<close> thread: it starts the \<open>DIM\<close> thread exactly when a brightness is
  supplied, followed by the \<open>CHANGE_TEMEPRATURE\<close> thread exactly when a colour temperature
  is supplied. With a colour temperature alone it starts that one thread only.
\<close>

theorem zigbee_turn_on_when_on:
  assumes "\<not> has_running_threads live_names (zb_id z)" and "zb_state z = Some True"
  shows "fst (KlikAanKlikUitZigbeeDevice_turn_on live_names z kwargs) =
           (case ATTR_BRIGHTNESS kwargs of
              Some level \<Rightarrow>
                [KlikAanKlikUitThread DIM (zb_id z) 1 1 (Hub_zigbee_dim (zb_id z) level)]
            | None \<Rightarrow> [])
           @ (case ATTR_COLOR_TEMP kwargs of
                Some color_temp \<Rightarrow>
                  [KlikAanKlikUitThread CHANGE_TEMEPRATURE (zb_id z) 1 1
                     (Hub_zigbee_color_temp (zb_id z) color_temp)]
              | None \<Rightarrow> [])
         \<and> (ATTR_BRIGHTNESS kwargs = None \<and> ATTR_COLOR_TEMP kwargs = Some c \<longrightarrow>
              fst (KlikAanKlikUitZigbeeDevice_turn_on live_names z kwargs) =
                [KlikAanKlikUitThread CHANGE_TEMEPRATURE (zb_id z) 1 1
                   (Hub_zigbee_color_temp (zb_id z) c)])"
  using assms
  by (simp add: KlikAanKlikUitZigbeeDevice_turn_on_def Let_def split: option.splits)

theorem zigbee_turn_on_when_on_witness:
  "fst (KlikAanKlikUitZigbeeDevice_turn_on [''MainThread'']
          \<lparr>zb_name = ''Z1'', zb_id = 7, zb_state = Some True, zb_brightness = Some 100,
           zb_color_temp = None\<rparr>
          \<lparr>ATTR_BRIGHTNESS = None, ATTR_COLOR_TEMP = Some 250\<rparr>) =
     [\<lparr>t_name = ''kakuchange_temperature7'', t_tries = 1, t_sleep = 1,
       t_call = Hub_zigbee_color_temp 7 250\<rparr>]"
proof -
  have s: "zb_state \<lparr>zb_name = ''Z1'', zb_id = 7, zb_state = Some True, zb_brightness = Some 100,
      zb_color_temp = None\<rparr> = Some True" by simp
  show ?thesis
    using zigbee_turn_on_when_on [OF main_thread_only s, of
        "\<lparr>ATTR_BRIGHTNESS = None, ATTR_COLOR_TEMP = Some 250\<rparr>" 250]
    by (simp add: KlikAanKlikUitThread_def name_eval)
qed

text \<open>
  Claim C10. A Zigbee entity whose device is not busy stores in \<open>turn_on\<close> the supplied
  brightness and colour temperature as they are, \<open>None\<close> for one that is omitted: a call
  without brightness erases the brightness stored before.
\<close>

theorem zigbee_turn_on_overwrites_cache:
  assumes "\<not> has_running_threads live_names (zb_id z)"
  shows "zb_brightness (snd (KlikAanKlikUitZigbeeDevice_turn_on live_names z kwargs)) =
           ATTR_BRIGHTNESS kwargs
         \<and> zb_color_temp (snd (KlikAanKlikUitZigbeeDevice_turn_on live_names z kwargs)) =
           ATTR_COLOR_TEMP kwargs"
  using assms by (simp add: KlikAanKlikUitZigbeeDevice_turn_on_def Let_def)

theorem zigbee_turn_on_overwrites_cache_witness:
  "zb_brightness (snd (KlikAanKlikUitZigbeeDevice_turn_on [''MainThread'']
          \<lparr>zb_name = ''Z1'', zb_id = 7, zb_state = Some True, zb_brightness = Some 100,
           zb_color_temp = Some 300\<rparr>
          \<lparr>ATTR_BRIGHTNESS = None, ATTR_COLOR_TEMP = Some 250\<rparr>)) = None
   \<and> zb_color_temp (snd (KlikAanKlikUitZigbeeDevice_turn_on [''MainThread'']
          \<lparr>zb_name = ''Z1'', zb_id = 7, zb_state = Some True, zb_brightness = Some 100,
           zb_color_temp = Some 300\<rparr>
          \<lparr>ATTR_BRIGHTNESS = None, ATTR_COLOR_TEMP = Some 250\<rparr>)) = Some 250"
  using zigbee_turn_on_overwrites_cache [OF main_thread_only, of
      "\<lparr>zb_name = ''Z1'', zb_id = 7, zb_state = Some True, zb_brightness = Some 100,
        zb_color_temp = Some 300\<rparr>" "\<lparr>ATTR_BRIGHTNESS = None, ATTR_COLOR_TEMP = Some 250\<rparr>"]
  by simp

section \<open>The cached state is set at once\<close>

lemma threads_run_light: "light (threads_run hub p ts) = light p"
  unfolding threads_run_def by (induction ts arbitrary: p) (simp_all add: thread_runs_def)

text \<open>
  Claim C5. When the device is not busy, \<open>turn_on\<close> returns with \<open>_state\<close> true and
  \<open>turn_off\<close> returns with \<open>_state\<close> false, for the standard and for the Zigbee entity,
  before any started thread has run. Whatever threads run afterwards, against whatever
  hub, raising or not, the entity stays as the call left it.
\<close>

theorem cached_state_set_at_once:
  "(\<not> has_running_threads live_names (dev_id d) \<longrightarrow>
      dev_state (snd (KlikAanKlikUitDevice_turn_on live_names d kwargs)) = Some True
      \<and> dev_state (snd (KlikAanKlikUitDevice_turn_off live_names d)) = Some False
      \<and> light (threads_run hub
            \<lparr>light = snd (KlikAanKlikUitDevice_turn_on live_names d kwargs), world = w\<rparr> ts)
          = snd (KlikAanKlikUitDevice_turn_on live_names d kwargs)
      \<and> light (threads_run hub
            \<lparr>light = snd (KlikAanKlikUitDevice_turn_off live_names d), world = w\<rparr> ts)
          = snd (KlikAanKlikUitDevice_turn_off live_names d))
   \<and> (\<not> has_running_threads live_names (zb_id z) \<longrightarrow>
      zb_state (snd (KlikAanKlikUitZigbeeDevice_turn_on live_names z kwargs)) = Some True
      \<and> zb_state (snd (KlikAanKlikUitZigbeeDevice_turn_off live_names z)) = Some False
      \<and> light (threads_run hub
            \<lparr>light = snd (KlikAanKlikUitZigbeeDevice_turn_on live_names z kwargs), world = w\<rparr> ts)
          = snd (KlikAanKlikUitZigbeeDevice_turn_on live_names z kwargs)
      \<and> light (threads_run hub
            \<lparr>light = snd (KlikAanKlikUitZigbeeDevice_turn_off live_names z), world = w\<rparr> ts)
          = snd (KlikAanKlikUitZigbeeDevice_turn_off live_names z))"
  by (simp add: dispatch_defs threads_run_light Let_def)

theorem cached_state_set_at_once_witness:
  "dev_state (snd (KlikAanKlikUitDevice_turn_on [''MainThread'']
          \<lparr>dev_tries = 3, dev_sleep = 3, dev_name = ''D1'', dev_id = 12, dev_state = None,
           dev_brightness = None\<rparr>
          \<lparr>ATTR_BRIGHTNESS = Some 85, ATTR_COLOR_TEMP = None\<rparr>)) = Some True
   \<and> dev_state (light (threads_run (\<lambda>c w. (Some (), c # w))
        \<lparr>light = snd (KlikAanKlikUitDevice_turn_on [''MainThread'']
            \<lparr>dev_tries = 3, dev_sleep = 3, dev_name = ''D1'', dev_id = 12, dev_state = None,
             dev_brightness = None\<rparr>
            \<lparr>ATTR_BRIGHTNESS = Some 85, ATTR_COLOR_TEMP = None\<rparr>), world = []\<rparr>
        (fst (KlikAanKlikUitDevice_turn_on [''MainThread'']
            \<lparr>dev_tries = 3, dev_sleep = 3, dev_name = ''D1'', dev_id = 12, dev_state = None,
             dev_brightness = None\<rparr>
            \<lparr>ATTR_BRIGHTNESS = Some 85, ATTR_COLOR_TEMP = None\<rparr>)))) = Some True
   \<and> zb_state (snd (KlikAanKlikUitZigbeeDevice_turn_off [''MainThread'']
          \<lparr>zb_name = ''Z1'', zb_id = 7, zb_state = Some True, zb_brightness = Some 100,
           zb_color_temp = Some 300\<rparr>)) = Some False"
  using cached_state_set_at_once [of "[''MainThread'']"
      "\<lparr>dev_tries = 3, dev_sleep = 3, dev_name = ''D1'', dev_id = 12, dev_state = None,
        dev_brightness = None\<rparr>" "\<lparr>ATTR_BRIGHTNESS = Some 85, ATTR_COLOR_TEMP = None\<rparr>"
      "\<lambda>c w. (Some (), c # w)" "[]"
      "fst (KlikAanKlikUitDevice_turn_on [''MainThread'']
            \<lparr>dev_tries = 3, dev_sleep = 3, dev_name = ''D1'', dev_id = 12, dev_state = None,
             dev_brightness = None\<rparr>
            \<lparr>ATTR_BRIGHTNESS = Some 85, ATTR_COLOR_TEMP = None\<rparr>)"
      "\<lparr>zb_name = ''Z1'', zb_id = 7, zb_state = Some True, zb_brightness = Some 100,
        zb_color_temp = Some 300\<rparr>"]
    main_thread_only [of 12] main_thread_only [of 7]
  by simp

end
